theory Spec2Isabelle
  imports Complex_Main "HOL-Library.Word"
begin

unbundle bit_operations_syntax

section \<open>Data model of the HP-3000 driver (bin/user/hp3000.py)\<close>

text \<open>
  The console delivers lists of bytes. A byte is an 8-bit word; where the Python code
  computes with a byte it computes with an unbounded integer, so every byte read from a
  buffer goes through \<open>uint\<close> into \<open>int\<close>.
\<close>

type_synonym byte = "8 word"

text \<open>
  The exceptions that the modelled code can raise. \<open>WeeWxIOError\<close> is the driver's
  own error, the one the polling loop \<open>genLoopPackets\<close> catches; it carries which of
  the three messages of \<open>read\<close> was raised. \<open>ValueError\<close> is raised by
  \<open>list.index\<close>, \<open>IndexError\<close> by a subscript out of range.
\<close>

datatype io_reason = BadLength | BadStart | NoTerminator

datatype error = WeeWxIOError io_reason | ValueError | IndexError

text \<open>
  The values stored in the dictionary that \<open>raw_to_pkt\<close> returns: strings, integers,
  floats and \<open>None\<close> (what \<open>dict.get\<close> returns for a missing key). A float is
  represented by the real number it approximates: \<open>n / 10.0\<close> is the exact quotient.
\<close>

datatype pyval = PStr string | PInt int | PFloat real | PNone

type_synonym pkt = "string \<rightharpoonup> pyval"

section \<open>Exceptions as values\<close>

definition andThen :: "error + 'a \<Rightarrow> ('a \<Rightarrow> error + 'b) \<Rightarrow> error + 'b" where
  "andThen m f = (case m of Inl e \<Rightarrow> Inl e | Inr v \<Rightarrow> f v)"

text \<open>\<open>buf[i]\<close> for an index that is never negative: IndexError out of range.\<close>

definition getitem :: "byte list \<Rightarrow> nat \<Rightarrow> error + int" where
  "getitem buf i = (if i < length buf then Inr (uint (buf ! i)) else Inl IndexError)"

text \<open>\<open>buf.index(v)\<close>: the first position of \<open>v\<close>, ValueError when there is none.\<close>

fun index :: "byte list \<Rightarrow> int \<Rightarrow> error + nat" where
  "index [] v = Inl ValueError"
| "index (x # xs) v =
     (if uint x = v then Inr 0 else andThen (index xs v) (\<lambda>i. Inr (Suc i)))"

section \<open>The frame extractor: HP3000Station.read\<close>

text \<open>
  The body of the \<open>try\<close> block of \<open>read\<close>:
  \<^verbatim>\<open>
      i = buf.index(0x40)
      if buf[i + 1] == 0x7d:
          idx = i
  \<close>
  It returns the value of \<open>idx\<close> afterwards (\<open>None\<close> when it was not assigned).
\<close>

definition try_body :: "byte list \<Rightarrow> error + nat option" where
  "try_body buf =
     andThen (index buf 0x40) (\<lambda>i.
     andThen (getitem buf (i + 1)) (\<lambda>b.
     Inr (if b = 0x7d then Some i else None)))"

text \<open>
  The handler \<^verbatim>\<open>except ValueError, IndexError: pass\<close> is Python 2 syntax for
  "catch ValueError and bind the exception to the name IndexError": it catches
  ValueError only, and \<open>idx\<close> keeps its initial value \<open>None\<close>. Every other
  exception leaves \<open>read\<close>.
\<close>

definition find_idx :: "byte list \<Rightarrow> error + nat option" where
  "find_idx buf =
     (case try_body buf of
        Inl ValueError \<Rightarrow> Inr None
      | Inl e \<Rightarrow> Inl e
      | Inr idx \<Rightarrow> Inr idx)"

text \<open>
  \<open>read\<close> applied to the buffer \<open>buf\<close> that the transport returned. An empty
  buffer is falsy: \<open>read\<close> returns \<open>None\<close> and raises nothing. Otherwise it
  returns the slice \<open>buf[0: idx + 2]\<close> or raises.
\<close>

definition read :: "byte list \<Rightarrow> error + byte list option" where
  "read buf =
     (if buf = [] then Inr None
      else if length buf \<noteq> 64 then Inl (WeeWxIOError BadLength)
      else andThen (getitem buf 0) (\<lambda>b0.
        if b0 \<noteq> 0x7b then Inl (WeeWxIOError BadStart)
        else andThen (find_idx buf) (\<lambda>idx.
          case idx of
            None \<Rightarrow> Inl (WeeWxIOError NoTerminator)
          | Some i \<Rightarrow> Inr (Some (take (i + 2) buf)))))"

section \<open>Outbound pings: send_cmd and send_sequence\<close>

text \<open>
  The method \<open>write\<close> of the source hands a buffer to the USB transport (its name
  is an Isar keyword, hence \<open>write_buf\<close> here). The transport is modelled by the
  list of buffers written so far, oldest first.
\<close>

record transport =
  written :: "byte list list"

definition write_buf :: "byte list \<Rightarrow> transport \<Rightarrow> transport" where
  "write_buf buf t = t\<lparr>written := written t @ [buf]\<rparr>"

definition send_cmd :: "byte \<Rightarrow> transport \<Rightarrow> transport" where
  "send_cmd cmd t = write_buf [0x7b, cmd, 0x40, 0x7d] t"

definition send_sequence :: "transport \<Rightarrow> transport" where
  "send_sequence t =
     send_cmd 0x41 (send_cmd 0x04 (send_cmd 0x03 (send_cmd 0x05
       (send_cmd 0x09 (send_cmd 0x08 (send_cmd 0x06 t))))))"

section \<open>The decoder: HP3000Station.raw_to_pkt\<close>

definition GRAPH_TYPE :: "int \<rightharpoonup> string" where
  "GRAPH_TYPE = [0 \<mapsto> ''temperature'', 1 \<mapsto> ''humidity'', 2 \<mapsto> ''dewpoint'',
                 3 \<mapsto> ''heatindex'']"

definition TIME_FORMAT :: "int \<rightharpoonup> string" where
  "TIME_FORMAT = [0 \<mapsto> ''h:mm:ss'', 1 \<mapsto> ''AM h:mm:ss'', 2 \<mapsto> ''h:mm:ss AM'']"

definition DATE_FORMAT :: "int \<rightharpoonup> string" where
  "DATE_FORMAT = [0 \<mapsto> ''dd-mm-yyyy'', 1 \<mapsto> ''mm-dd-yyyy'', 2 \<mapsto> ''yyyy-mm-dd'']"

definition DST :: "int \<rightharpoonup> string" where
  "DST = [0 \<mapsto> ''off'', 1 \<mapsto> ''on'']"

definition UNITS :: "int \<rightharpoonup> string" where
  "UNITS = [0 \<mapsto> ''degree_C'', 1 \<mapsto> ''degree_F'']"

text \<open>\<open>d.get(k)\<close>: the value stored under \<open>k\<close>, \<open>None\<close> for a missing key.\<close>

definition dict_get :: "(int \<rightharpoonup> string) \<Rightarrow> int \<Rightarrow> pyval" where
  "dict_get d k = (case d k of Some s \<Rightarrow> PStr s | None \<Rightarrow> PNone)"

definition decode_timezone :: "int \<Rightarrow> int" where
  "decode_timezone x = (if x AND 0xf0 = 0xf0 then x - 0x100 else x)"

text \<open>
  \<^verbatim>\<open>'%s' % n\<close> for a number that is not negative: its decimal digits. The
  channel numbers \<open>ch + 1\<close> of \<open>range(8)\<close> print as one digit.
\<close>

definition digit :: "nat \<Rightarrow> char" where
  "digit d = ''0123456789'' ! d"

function str :: "nat \<Rightarrow> string" where
  "str n = (if n < 10 then [digit n] else str (n div 10) @ [digit (n mod 10)])"
  by pat_completeness auto
termination
  by (relation "measure id") auto

declare str.simps [simp del]

definition key :: "string \<Rightarrow> nat \<Rightarrow> string" where
  "key prefix n = prefix @ str n"

text \<open>\<open>(msb * 256 + lsb) / 10.0\<close>\<close>

definition tenths :: "int \<Rightarrow> int \<Rightarrow> pyval" where
  "tenths msb lsb = PFloat (real_of_int (msb * 256 + lsb) / 10)"

text \<open>
  \<^verbatim>\<open>for ch in range(8): ...\<close> over a loop body that updates the dictionary or
  raises: the first exception ends the loop.
\<close>

fun for_range :: "nat list \<Rightarrow> (nat \<Rightarrow> pkt \<Rightarrow> error + pkt) \<Rightarrow> pkt \<Rightarrow> error + pkt" where
  "for_range [] body p = Inr p"
| "for_range (ch # chs) body p = andThen (body ch p) (for_range chs body)"

text \<open>The four loop bodies of \<open>raw_to_pkt\<close>, in the order of the source.\<close>

definition alarm_humidity_ch :: "byte list \<Rightarrow> nat \<Rightarrow> pkt \<Rightarrow> error + pkt" where
  "alarm_humidity_ch buf ch p =
     (let idx = 1 + ch * 2 in
      andThen (getitem buf idx) (\<lambda>hi.
      andThen (getitem buf (idx + 1)) (\<lambda>lo.
      Inr (p(key ''hhi_'' (ch + 1) \<mapsto> PInt hi, key ''hlo_'' (ch + 1) \<mapsto> PInt lo)))))"

definition alarm_temperature_ch :: "byte list \<Rightarrow> nat \<Rightarrow> pkt \<Rightarrow> error + pkt" where
  "alarm_temperature_ch buf ch p =
     (let idx = 1 + ch * 4 in
      andThen (getitem buf idx) (\<lambda>b0.
      andThen (getitem buf (idx + 1)) (\<lambda>b1.
      andThen (getitem buf (idx + 2)) (\<lambda>b2.
      andThen (getitem buf (idx + 3)) (\<lambda>b3.
      Inr (p(key ''thi_'' (ch + 1) \<mapsto> tenths b0 b1,
             key ''tlo_'' (ch + 1) \<mapsto> tenths b2 b3)))))))"

definition sensor_calibration_ch :: "byte list \<Rightarrow> nat \<Rightarrow> pkt \<Rightarrow> error + pkt" where
  "sensor_calibration_ch buf ch p =
     (let idx = 1 + ch * 3 in
      andThen (getitem buf idx) (\<lambda>msb.
      andThen (getitem buf (idx + 1)) (\<lambda>lsb.
      andThen (getitem buf (idx + 2)) (\<lambda>hum.
      Inr (p(key ''tc_'' (ch + 1) \<mapsto> tenths msb lsb,
             key ''hc_'' (ch + 1) \<mapsto> PInt hum))))))"

text \<open>
  \<^verbatim>\<open>
      if buf[idx] != 0x7f and buf[idx + 1] != 0xff:
          pkt['t_%s' % (ch + 1)] = (buf[idx] * 256 + buf[idx + 1]) / 10.0
      if buf[idx + 2] != 0xff:
          pkt['h_%s' % (ch + 1)] = buf[idx + 2]
  \<close>
  \<open>and\<close> reads its right operand only when the left one is true.
\<close>

definition sensor_values_ch :: "byte list \<Rightarrow> nat \<Rightarrow> pkt \<Rightarrow> error + pkt" where
  "sensor_values_ch buf ch p =
     (let idx = 1 + ch * 3 in
      andThen (getitem buf idx) (\<lambda>msb.
      andThen (if msb \<noteq> 0x7f
               then andThen (getitem buf (idx + 1)) (\<lambda>lsb.
                      Inr (if lsb \<noteq> 0xff
                           then p(key ''t_'' (ch + 1) \<mapsto> tenths msb lsb) else p))
               else Inr p) (\<lambda>p1.
      andThen (getitem buf (idx + 2)) (\<lambda>hum.
      Inr (if hum \<noteq> 0xff then p1(key ''h_'' (ch + 1) \<mapsto> PInt hum) else p1)))))"

text \<open>The slice \<open>buf[1: -2]\<close>: from position 1 up to, not including, the last two.\<close>

definition payload :: "byte list \<Rightarrow> byte list" where
  "payload buf = drop 1 (take (length buf - 2) buf)"

definition configuration :: "byte list \<Rightarrow> error + pkt" where
  "configuration buf =
     andThen (getitem buf 1) (\<lambda>b1.
     andThen (getitem buf 2) (\<lambda>b2.
     andThen (getitem buf 3) (\<lambda>b3.
     andThen (getitem buf 4) (\<lambda>b4.
     andThen (getitem buf 5) (\<lambda>b5.
     andThen (getitem buf 6) (\<lambda>b6.
     andThen (getitem buf 7) (\<lambda>b7.
     andThen (getitem buf 11) (\<lambda>b11.
     andThen (getitem buf 15) (\<lambda>b15.
     andThen (getitem buf 19) (\<lambda>b19.
     andThen (getitem buf 23) (\<lambda>b23.
     andThen (getitem buf 27) (\<lambda>b27.
     Inr [''type'' \<mapsto> PStr ''configuration'',
          ''graph_type'' \<mapsto> dict_get GRAPH_TYPE b1,
          ''graph_hours'' \<mapsto> PInt b2,
          ''time_format'' \<mapsto> dict_get TIME_FORMAT b3,
          ''date_format'' \<mapsto> dict_get DATE_FORMAT b4,
          ''dst'' \<mapsto> dict_get DST b5,
          ''timezone'' \<mapsto> PInt (decode_timezone b6),
          ''units'' \<mapsto> dict_get UNITS b7,
          ''area1'' \<mapsto> PInt b11,
          ''area2'' \<mapsto> PInt b15,
          ''area3'' \<mapsto> PInt b19,
          ''area4'' \<mapsto> PInt b23,
          ''area5'' \<mapsto> PInt b27]))))))))))))"

text \<open>
  \<open>raw_to_pkt\<close>. A falsy buffer (empty, or \<open>None\<close> from \<open>read\<close>) gives the
  empty dictionary; so does a length that no branch names, after a debug log line.
\<close>

definition raw_to_pkt :: "byte list \<Rightarrow> error + pkt" where
  "raw_to_pkt buf =
     (if buf = [] then Inr Map.empty
      else if length buf = 4 then
        andThen (getitem buf 1) (\<lambda>b1.
        Inr [''type'' \<mapsto> PStr ''interval'', ''interval'' \<mapsto> PInt b1])
      else if length buf = 30 then configuration buf
      else if length buf = 19 then
        for_range [0..<8] (alarm_humidity_ch buf) [''type'' \<mapsto> PStr ''alarm_humidity'']
      else if length buf = 35 then
        for_range [0..<8] (alarm_temperature_ch buf)
          [''type'' \<mapsto> PStr ''alarm_temperature'']
      else if length buf = 27 then
        (if map uint (payload buf) = replicate 24 0
         then for_range [0..<8] (sensor_calibration_ch buf)
                [''type'' \<mapsto> PStr ''sensor_calibration'']
         else for_range [0..<8] (sensor_values_ch buf)
                [''type'' \<mapsto> PStr ''sensor_values''])
      else Inr Map.empty)"

section \<open>Example buffers\<close>

text \<open>The messages listed in the driver's module documentation, byte for byte.\<close>

definition interval_example :: "byte list" where
  "interval_example = [0x7b, 0x05, 0x40, 0x7d]"

definition unknown_example :: "byte list" where
  "unknown_example = [0x7b, 0x01, 0x01, 0x00, 0x00, 0x00, 0x00, 0x40, 0x7d]"

text \<open>Three bytes: a start marker and a terminator pair, nothing between them.\<close>

definition short_example :: "byte list" where
  "short_example = [0x7b, 0x40, 0x7d]"

definition configuration_example :: "byte list" where
  "configuration_example =
     [0x7b, 0x00, 0x48, 0x01, 0x00, 0x00, 0xfb, 0x01, 0x00, 0x00, 0x00, 0x07,
      0x00, 0x00, 0x00, 0x00, 0x00, 0x00, 0x00, 0x00, 0x00, 0x00, 0x00, 0x00,
      0x00, 0x00, 0x00, 0x00, 0x40, 0x7d]"

definition values_example :: "byte list" where
  "values_example =
     [0x7b, 0x00, 0xeb, 0x25, 0x7f, 0xff, 0xff, 0x7f, 0xff, 0xff, 0x7f, 0xff, 0xff,
      0x7f, 0xff, 0xff, 0x7f, 0xff, 0xff, 0x7f, 0xff, 0xff, 0x7f, 0xff, 0xff,
      0x40, 0x7d]"

definition calibration_example :: "byte list" where
  "calibration_example =
     [0x7b, 0x00, 0x00, 0x00, 0x00, 0x00, 0x00, 0x00, 0x00, 0x00, 0x00, 0x00, 0x00,
      0x00, 0x00, 0x00, 0x00, 0x00, 0x00, 0x00, 0x00, 0x00, 0x00, 0x00, 0x00,
      0x40, 0x7d]"

definition alarm_humidity_example :: "byte list" where
  "alarm_humidity_example =
     [0x7b, 0x5a, 0x14, 0x5a, 0x14, 0x5a, 0x14, 0x5a, 0x14, 0x5a, 0x14, 0x5a, 0x14,
      0x5a, 0x14, 0x5a, 0x14, 0x40, 0x7d]"

definition alarm_temperature_example :: "byte list" where
  "alarm_temperature_example =
     [0x7b, 0x01, 0x2c, 0x00, 0x64, 0x01, 0x2c, 0x00, 0x64, 0x01, 0x2c, 0x00, 0x64,
      0x01, 0x2c, 0x00, 0x64, 0x01, 0x2c, 0x00, 0x64, 0x01, 0x2c, 0x00, 0x64,
      0x01, 0x2c, 0x00, 0x64, 0x01, 0x2c, 0x00, 0x64, 0x40, 0x7d]"

text \<open>
  The current-data message with the reading of channel 1 changed to 25.5 degrees
  (\<open>0x00ff\<close> tenths): the most significant byte is not \<open>0x7f\<close>, the least
  significant byte is \<open>0xff\<close>.
\<close>

definition values_25_5_example :: "byte list" where
  "values_25_5_example =
     [0x7b, 0x00, 0xff, 0x25, 0x7f, 0xff, 0xff, 0x7f, 0xff, 0xff, 0x7f, 0xff, 0xff,
      0x7f, 0xff, 0xff, 0x7f, 0xff, 0xff, 0x7f, 0xff, 0xff, 0x7f, 0xff, 0xff,
      0x40, 0x7d]"

text \<open>
  A 64-byte packet as the console sends it: the current-data message with the humidity
  of channel 1 at 64 percent (\<open>0x40\<close>), followed by 37 bytes of residue. The
  terminator pair \<open>0x40 0x7d\<close> stands at positions 25 and 26.
\<close>

definition humidity_64_packet :: "byte list" where
  "humidity_64_packet =
     [0x7b, 0x00, 0xeb, 0x40, 0x7f, 0xff, 0xff, 0x7f, 0xff, 0xff, 0x7f, 0xff, 0xff,
      0x7f, 0xff, 0xff, 0x7f, 0xff, 0xff, 0x7f, 0xff, 0xff, 0x7f, 0xff, 0xff,
      0x40, 0x7d] @ replicate 37 0x00"

text \<open>The current-data message in a 64-byte packet, followed by residue.\<close>

definition values_packet :: "byte list" where
  "values_packet = values_example @ replicate 37 0x00"

text \<open>
  Three 64-byte packets without a terminator pair: one that does not start with
  \<open>0x7b\<close>, one without any \<open>0x40\<close>, and one whose only \<open>0x40\<close> is the last
  byte.
\<close>

definition bad_start_packet :: "byte list" where
  "bad_start_packet = replicate 64 0x00"

definition no_terminator_packet :: "byte list" where
  "no_terminator_packet = 0x7b # replicate 63 0x00"

definition last_byte_0x40_packet :: "byte list" where
  "last_byte_0x40_packet = 0x7b # replicate 62 0x00 @ [0x40]"

section \<open>Exceptions and indexing: basic facts\<close>

lemma andThen_Inr [simp]: "andThen (Inr v) f = f v"
  by (simp add: andThen_def)

lemma andThen_Inl [simp]: "andThen (Inl e) f = Inl e"
  by (simp add: andThen_def)

lemma getitem_in: "i < length buf \<Longrightarrow> getitem buf i = Inr (uint (buf ! i))"
  by (simp add: getitem_def)

lemma getitem_out: "length buf \<le> i \<Longrightarrow> getitem buf i = Inl IndexError"
  by (simp add: getitem_def)

lemma byte_eq_uint: "(b :: byte) = c \<longleftrightarrow> uint b = uint c"
  by (simp add: word_uint_eq_iff)

text \<open>\<open>index\<close> fails only with ValueError, and only when the value does not occur.\<close>

lemma index_Inl:
  "index xs v = Inl e \<Longrightarrow> e = ValueError \<and> (\<forall>i<length xs. uint (xs ! i) \<noteq> v)"
proof (induction xs arbitrary: e)
  case Nil
  then show ?case by simp
next
  case (Cons x xs)
  then show ?case
    by (auto simp: andThen_def nth_Cons' split: if_splits sum.splits)
qed

text \<open>When \<open>index\<close> returns, it returns the first position of the value.\<close>

lemma index_Inr:
  "index xs v = Inr i \<Longrightarrow>
   i < length xs \<and> uint (xs ! i) = v \<and> (\<forall>j<i. uint (xs ! j) \<noteq> v)"
proof (induction xs arbitrary: i)
  case Nil
  then show ?case by simp
next
  case (Cons x xs)
  show ?case
  proof (cases "uint x = v")
    case True
    with Cons.prems show ?thesis by simp
  next
    case False
    with Cons.prems obtain k where k: "index xs v = Inr k" "i = Suc k"
      by (auto simp: andThen_def split: sum.splits)
    from Cons.IH [OF k(1)] False k(2) show ?thesis
      by (auto simp: nth_Cons split: nat.splits)
  qed
qed

section \<open>The frame extractor: what read returns\<close>

lemma read_empty: "read [] = Inr None"
  by (simp add: read_def)

lemma read_BadLength:
  "buf \<noteq> [] \<Longrightarrow> length buf \<noteq> 64 \<Longrightarrow> read buf = Inl (WeeWxIOError BadLength)"
  by (simp add: read_def)

lemma read_BadStart:
  "length buf = 64 \<Longrightarrow> buf ! 0 \<noteq> 0x7b \<Longrightarrow> read buf = Inl (WeeWxIOError BadStart)"
  by (auto simp: read_def getitem_in byte_eq_uint)

text \<open>
  No terminator pair, and the first \<open>0x40\<close> (if there is one) is not the last byte:
  the byte after the first \<open>0x40\<close> exists and is not \<open>0x7d\<close>.
\<close>

lemma read_NoTerminator:
  assumes len: "length buf = 64" and start: "buf ! 0 = 0x7b"
    and nopair: "\<forall>i. Suc i < length buf \<longrightarrow> \<not> (buf ! i = 0x40 \<and> buf ! Suc i = 0x7d)"
    and notlast: "last buf = 0x40 \<longrightarrow> 0x40 \<in> set (butlast buf)"
  shows "read buf = Inl (WeeWxIOError NoTerminator)"
proof -
  have ne: "buf \<noteq> []" using len by auto
  have "find_idx buf = Inr None"
  proof (cases "index buf 0x40")
    case (Inl e)
    then have "e = ValueError" using index_Inl by blast
    with Inl show ?thesis by (simp add: find_idx_def try_body_def)
  next
    case (Inr i)
    from index_Inr [OF Inr] have i: "i < 64" "buf ! i = 0x40" "\<forall>j<i. buf ! j \<noteq> 0x40"
      using len by (auto simp: byte_eq_uint)
    have "i \<noteq> 63"
    proof
      assume "i = 63"
      then have "last buf = 0x40" using i(2) len ne by (simp add: last_conv_nth)
      with notlast obtain j where "j < length (butlast buf)" "butlast buf ! j = 0x40"
        by (auto simp: in_set_conv_nth)
      then have "j < 63" "buf ! j = 0x40" using len by (auto simp: nth_butlast)
      with i(3) \<open>i = 63\<close> show False by blast
    qed
    with i(1) have lt: "Suc i < length buf" using len by simp
    with nopair i(2) have "buf ! Suc i \<noteq> 0x7d" by blast
    then have "uint (buf ! Suc i) \<noteq> 0x7d" by (simp add: byte_eq_uint)
    with Inr lt show ?thesis
      by (simp add: find_idx_def try_body_def getitem_in)
  qed
  with len start ne show ?thesis
    by (simp add: read_def getitem_in)
qed

text \<open>
  The first \<open>0x40\<close> of the packet is followed by \<open>0x7d\<close>: \<open>read\<close> returns the
  packet up to and including that pair, whatever follows. So it does on the
  current-data message of the module documentation, followed by residue.
\<close>

lemma read_slice:
  assumes len: "length buf = 64" and start: "buf ! 0 = 0x7b"
    and p: "Suc p < length buf" "buf ! p = 0x40" "buf ! Suc p = 0x7d"
    and first: "\<forall>j<p. buf ! j \<noteq> 0x40"
  shows "read buf = Inr (Some (take (p + 2) buf))"
proof -
  have ne: "buf \<noteq> []" using len by auto
  have "index buf 0x40 = Inr p"
  proof (cases "index buf 0x40")
    case (Inl e)
    with index_Inl [OF Inl] p show ?thesis by (auto simp: byte_eq_uint)
  next
    case (Inr i)
    from index_Inr [OF Inr] have i: "i < 64" "buf ! i = 0x40" "\<forall>j<i. buf ! j \<noteq> 0x40"
      using len by (auto simp: byte_eq_uint)
    have "i = p" using i(2,3) p(2) first by (meson linorder_neqE_nat)
    with Inr show ?thesis by simp
  qed
  with p have "find_idx buf = Inr (Some p)"
    by (simp add: find_idx_def try_body_def getitem_in)
  with len start ne show ?thesis
    by (simp add: read_def getitem_in)
qed

lemma read_values_packet: "read values_packet = Inr (Some values_example)"
  by (simp add: values_packet_def values_example_def read_def getitem_def find_idx_def
      try_body_def)

section \<open>The decoder: what raw_to_pkt returns\<close>

text \<open>
  The loops run over the channels 0 to 7; the dictionary keys of channel \<open>ch\<close> end in
  the digit \<open>ch + 1\<close>.
\<close>

lemma upt8: "[0..<8] = [0, 1, 2, 3, 4, 5, 6, 7]"
  by (simp add: upt_rec)

lemma rep24: "replicate 24 (0::int) = [0,0,0,0,0,0,0,0,0,0,0,0,0,0,0,0,0,0,0,0,0,0,0,0]"
  by code_simp

lemma key_simps:
  "key p (Suc 0) = p @ ''1''" "key p 2 = p @ ''2''" "key p 3 = p @ ''3''"
  "key p 4 = p @ ''4''" "key p 5 = p @ ''5''" "key p 6 = p @ ''6''" "key p 7 = p @ ''7''"
  "key p 8 = p @ ''8''"
  by (simp_all add: key_def str.simps digit_def)

lemma Suc_numerals: "Suc (Suc 0) = 2" "Suc (Suc (Suc 0)) = 3"
  by simp_all

lemma channel_cases:
  "1 \<le> ch \<Longrightarrow> ch \<le> 8 \<Longrightarrow>
   ch = Suc 0 \<or> ch = 2 \<or> ch = 3 \<or> ch = 4 \<or> ch = 5 \<or> ch = 6 \<or> ch = 7 \<or> ch = (8::nat)"
  by arith

lemma alarm_humidity_ch_eval:
  "2 + ch * 2 < length buf \<Longrightarrow>
   alarm_humidity_ch buf ch p =
     Inr (p(key ''hhi_'' (ch + 1) \<mapsto> PInt (uint (buf ! (1 + ch * 2))),
            key ''hlo_'' (ch + 1) \<mapsto> PInt (uint (buf ! (1 + ch * 2 + 1)))))"
  by (simp add: alarm_humidity_ch_def getitem_in)

lemma alarm_humidity_fields:
  assumes "length buf = 19" and "1 \<le> ch" and "ch \<le> 8"
  shows "\<exists>p. raw_to_pkt buf = Inr p \<and> p ''type'' = Some (PStr ''alarm_humidity'') \<and>
     p (key ''hhi_'' ch) = Some (PInt (uint (buf ! (1 + 2 * (ch - 1))))) \<and>
     p (key ''hlo_'' ch) = Some (PInt (uint (buf ! (2 + 2 * (ch - 1)))))"
proof -
  have ne: "buf \<noteq> []" using assms(1) by auto
  from channel_cases [OF assms(2,3)] show ?thesis
    using assms(1) ne
    by (elim disjE)
      (simp_all add: raw_to_pkt_def upt8 alarm_humidity_ch_eval key_simps Suc_numerals)
qed

lemma alarm_temperature_ch_eval:
  "4 + ch * 4 < length buf \<Longrightarrow>
   alarm_temperature_ch buf ch p =
     Inr (p(key ''thi_'' (ch + 1) \<mapsto>
              tenths (uint (buf ! (1 + ch * 4))) (uint (buf ! (1 + ch * 4 + 1))),
            key ''tlo_'' (ch + 1) \<mapsto>
              tenths (uint (buf ! (1 + ch * 4 + 2))) (uint (buf ! (1 + ch * 4 + 3)))))"
  by (simp add: alarm_temperature_ch_def getitem_in)

lemma alarm_temperature_fields:
  assumes "length buf = 35" and "1 \<le> ch" and "ch \<le> 8"
  shows "\<exists>p. raw_to_pkt buf = Inr p \<and> p ''type'' = Some (PStr ''alarm_temperature'') \<and>
     p (key ''thi_'' ch) =
       Some (tenths (uint (buf ! (1 + 4 * (ch - 1)))) (uint (buf ! (2 + 4 * (ch - 1))))) \<and>
     p (key ''tlo_'' ch) =
       Some (tenths (uint (buf ! (3 + 4 * (ch - 1)))) (uint (buf ! (4 + 4 * (ch - 1)))))"
proof -
  have ne: "buf \<noteq> []" using assms(1) by auto
  from channel_cases [OF assms(2,3)] show ?thesis
    using assms(1) ne
    by (elim disjE)
      (simp_all add: raw_to_pkt_def upt8 alarm_temperature_ch_eval key_simps Suc_numerals)
qed

lemma sensor_calibration_ch_eval:
  "3 + ch * 3 < length buf \<Longrightarrow>
   sensor_calibration_ch buf ch p =
     Inr (p(key ''tc_'' (ch + 1) \<mapsto>
              tenths (uint (buf ! (1 + ch * 3))) (uint (buf ! (1 + ch * 3 + 1))),
            key ''hc_'' (ch + 1) \<mapsto> PInt (uint (buf ! (1 + ch * 3 + 2)))))"
  by (simp add: sensor_calibration_ch_def getitem_in)

lemma sensor_calibration_fields:
  assumes "length buf = 27" and "1 \<le> ch" and "ch \<le> 8"
  shows "\<exists>p. for_range [0..<8] (sensor_calibration_ch buf)
               [''type'' \<mapsto> PStr ''sensor_calibration''] = Inr p \<and>
     p ''type'' = Some (PStr ''sensor_calibration'') \<and>
     p (key ''tc_'' ch) =
       Some (tenths (uint (buf ! (1 + 3 * (ch - 1)))) (uint (buf ! (2 + 3 * (ch - 1))))) \<and>
     p (key ''hc_'' ch) = Some (PInt (uint (buf ! (3 + 3 * (ch - 1)))))"
proof -
  from channel_cases [OF assms(2,3)] show ?thesis
    using assms(1)
    by (elim disjE)
      (simp_all add: upt8 sensor_calibration_ch_eval key_simps Suc_numerals)
qed

lemma sensor_values_ch_eval:
  "3 + ch * 3 < length buf \<Longrightarrow>
   sensor_values_ch buf ch p =
     Inr (p(key ''t_'' (ch + 1) :=
              (if uint (buf ! (1 + ch * 3)) \<noteq> 0x7f \<and> uint (buf ! (1 + ch * 3 + 1)) \<noteq> 0xff
               then Some (tenths (uint (buf ! (1 + ch * 3))) (uint (buf ! (1 + ch * 3 + 1))))
               else p (key ''t_'' (ch + 1))),
            key ''h_'' (ch + 1) :=
              (if uint (buf ! (1 + ch * 3 + 2)) \<noteq> 0xff
               then Some (PInt (uint (buf ! (1 + ch * 3 + 2))))
               else p (key ''h_'' (ch + 1)))))"
  by (auto simp: sensor_values_ch_def getitem_in key_def fun_upd_idem)

lemma sensor_values_fields:
  assumes "length buf = 27" and "1 \<le> ch" and "ch \<le> 8"
  shows "\<exists>p. for_range [0..<8] (sensor_values_ch buf)
               [''type'' \<mapsto> PStr ''sensor_values''] = Inr p \<and>
     p ''type'' = Some (PStr ''sensor_values'') \<and>
     p (key ''t_'' ch) =
       (if uint (buf ! (1 + 3 * (ch - 1))) \<noteq> 0x7f \<and> uint (buf ! (2 + 3 * (ch - 1))) \<noteq> 0xff
        then Some (tenths (uint (buf ! (1 + 3 * (ch - 1)))) (uint (buf ! (2 + 3 * (ch - 1)))))
        else None) \<and>
     p (key ''h_'' ch) =
       (if uint (buf ! (3 + 3 * (ch - 1))) \<noteq> 0xff
        then Some (PInt (uint (buf ! (3 + 3 * (ch - 1))))) else None)"
proof -
  from channel_cases [OF assms(2,3)] show ?thesis
    using assms(1)
    by (elim disjE)
      (simp_all add: upt8 sensor_values_ch_eval key_simps Suc_numerals)
qed

lemma payload_zero:
  assumes "length buf = 27"
  shows "map uint (payload buf) = replicate 24 0 \<longleftrightarrow> (\<forall>i\<in>{1..24}. buf ! i = 0)"
proof -
  have len: "length (payload buf) = 24" using assms by (simp add: payload_def)
  have nth: "payload buf ! i = buf ! Suc i" if "i < 24" for i
    using that assms by (simp add: payload_def)
  have "map uint (payload buf) = replicate 24 0 \<longleftrightarrow> (\<forall>i<24. uint (payload buf ! i) = 0)"
    using len by (auto simp: list_eq_iff_nth_eq)
  also have "\<dots> \<longleftrightarrow> (\<forall>i<24. buf ! Suc i = 0)"
    using nth by (auto simp: byte_eq_uint)
  also have "\<dots> \<longleftrightarrow> (\<forall>i\<in>{1..24}. buf ! i = 0)"
  proof
    assume h: "\<forall>i<24. buf ! Suc i = 0"
    show "\<forall>i\<in>{1..24}. buf ! i = 0"
    proof
      fix i :: nat assume "i \<in> {1..24}"
      then have "i - 1 < 24" "Suc (i - 1) = i" by auto
      with h show "buf ! i = 0" by metis
    qed
  next
    assume "\<forall>i\<in>{1..24}. buf ! i = 0"
    then show "\<forall>i<24. buf ! Suc i = 0" by auto
  qed
  finally show ?thesis .
qed

lemma configuration_eval:
  assumes "length buf = 30"
  shows "configuration buf =
     Inr [''type'' \<mapsto> PStr ''configuration'',
          ''graph_type'' \<mapsto> dict_get GRAPH_TYPE (uint (buf ! 1)),
          ''graph_hours'' \<mapsto> PInt (uint (buf ! 2)),
          ''time_format'' \<mapsto> dict_get TIME_FORMAT (uint (buf ! 3)),
          ''date_format'' \<mapsto> dict_get DATE_FORMAT (uint (buf ! 4)),
          ''dst'' \<mapsto> dict_get DST (uint (buf ! 5)),
          ''timezone'' \<mapsto> PInt (decode_timezone (uint (buf ! 6))),
          ''units'' \<mapsto> dict_get UNITS (uint (buf ! 7)),
          ''area1'' \<mapsto> PInt (uint (buf ! 11)),
          ''area2'' \<mapsto> PInt (uint (buf ! 15)),
          ''area3'' \<mapsto> PInt (uint (buf ! 19)),
          ''area4'' \<mapsto> PInt (uint (buf ! 23)),
          ''area5'' \<mapsto> PInt (uint (buf ! 27))]"
  using assms by (simp add: configuration_def getitem_in)

lemma raw_to_pkt_unknown:
  "length buf \<notin> {4, 19, 27, 30, 35} \<Longrightarrow> raw_to_pkt buf = Inr Map.empty"
  by (simp add: raw_to_pkt_def)

lemma raw_to_pkt_total: "\<exists>p. raw_to_pkt buf = Inr p"
proof -
  consider "length buf = 4" | "length buf = 19" | "length buf = 27" | "length buf = 30"
    | "length buf = 35" | "length buf \<notin> {4, 19, 27, 30, 35}"
    by auto
  then show ?thesis
  proof cases
    case 1
    then show ?thesis by (auto simp: raw_to_pkt_def getitem_in)
  next
    case 2
    from alarm_humidity_fields [OF 2, of 1] show ?thesis by auto
  next
    case 3
    from sensor_calibration_fields [OF 3, of 1] sensor_values_fields [OF 3, of 1] 3
    show ?thesis by (auto simp: raw_to_pkt_def)
  next
    case 4
    then show ?thesis by (auto simp: raw_to_pkt_def configuration_eval)
  next
    case 5
    from alarm_temperature_fields [OF 5, of 1] show ?thesis by auto
  next
    case 6
    then show ?thesis by (simp add: raw_to_pkt_unknown)
  qed
qed

lemma decode_timezone_byte:
  "decode_timezone (uint (b :: byte)) =
     (if b AND 0xf0 = 0xf0 then uint b - 0x100 else uint b)"
proof -
  have "uint b AND 0xf0 = uint (b AND 0xf0)" by (simp add: uint_and)
  then show ?thesis by (simp add: decode_timezone_def byte_eq_uint)
qed

text \<open>\<open>index\<close> skips a run of zero bytes when it looks for a non-zero value.\<close>

lemma index_replicate_0:
  "v \<noteq> 0 \<Longrightarrow> index (replicate n 0 @ xs) v = andThen (index xs v) (\<lambda>i. Inr (n + i))"
  by (induction n) (auto simp: andThen_def split: sum.splits)

text \<open>The branch that \<open>raw_to_pkt\<close> takes on a 27-byte message.\<close>

lemma raw_to_pkt_27:
  assumes "length buf = 27"
  shows "raw_to_pkt buf =
     (if \<forall>i\<in>{1..24}. buf ! i = 0
      then for_range [0..<8] (sensor_calibration_ch buf)
             [''type'' \<mapsto> PStr ''sensor_calibration'']
      else for_range [0..<8] (sensor_values_ch buf) [''type'' \<mapsto> PStr ''sensor_values''])"
proof -
  have "buf \<noteq> []" using assms by auto
  then show ?thesis
    using assms by (simp add: raw_to_pkt_def payload_zero [OF assms])
qed

text \<open>The payload of the calibration example is zero, that of the current-data example is not.\<close>

lemma calibration_example_zero: "\<forall>i\<in>{1..24}. calibration_example ! i = 0"
proof -
  have "map uint (payload calibration_example) = replicate 24 0"
    by (simp add: payload_def calibration_example_def rep24)
  moreover have "length calibration_example = 27"
    by (simp add: calibration_example_def)
  ultimately show ?thesis using payload_zero [of calibration_example] by simp
qed

lemma values_example_nonzero: "\<not> (\<forall>i\<in>{1..24}. values_example ! i = 0)"
proof -
  have "map uint (payload values_example) \<noteq> replicate 24 0"
    by (simp add: payload_def values_example_def rep24)
  moreover have "length values_example = 27"
    by (simp add: values_example_def)
  ultimately show ?thesis using payload_zero [of values_example] by simp
qed

text \<open>The other branches of \<open>raw_to_pkt\<close>, one lemma for each length.\<close>

lemma raw_to_pkt_interval:
  "length buf = 4 \<Longrightarrow>
   raw_to_pkt buf = Inr [''type'' \<mapsto> PStr ''interval'', ''interval'' \<mapsto> PInt (uint (buf ! 1))]"
  by (auto simp: raw_to_pkt_def getitem_in)

lemma raw_to_pkt_configuration:
  "length buf = 30 \<Longrightarrow> raw_to_pkt buf = configuration buf"
  by (auto simp: raw_to_pkt_def)

lemma alarm_humidity_all:
  assumes "length buf = 19"
  shows "\<exists>p. raw_to_pkt buf = Inr p \<and> p ''type'' = Some (PStr ''alarm_humidity'') \<and>
     (\<forall>ch\<in>{1..8}.
        p (key ''hhi_'' ch) = Some (PInt (uint (buf ! (1 + 2 * (ch - 1))))) \<and>
        p (key ''hlo_'' ch) = Some (PInt (uint (buf ! (2 + 2 * (ch - 1))))))"
proof -
  from alarm_humidity_fields [OF assms, of 1] obtain p
    where p: "raw_to_pkt buf = Inr p" "p ''type'' = Some (PStr ''alarm_humidity'')"
    by auto
  have "p (key ''hhi_'' ch) = Some (PInt (uint (buf ! (1 + 2 * (ch - 1))))) \<and>
        p (key ''hlo_'' ch) = Some (PInt (uint (buf ! (2 + 2 * (ch - 1)))))"
    if "ch \<in> {1..8}" for ch
  proof -
    from that have "1 \<le> ch" "ch \<le> 8" by auto
    from alarm_humidity_fields [OF assms this] p(1) show ?thesis by auto
  qed
  with p show ?thesis by auto
qed

lemma alarm_temperature_all:
  assumes "length buf = 35"
  shows "\<exists>p. raw_to_pkt buf = Inr p \<and> p ''type'' = Some (PStr ''alarm_temperature'') \<and>
     (\<forall>ch\<in>{1..8}.
        p (key ''thi_'' ch) =
          Some (PFloat (real_of_int (uint (buf ! (1 + 4 * (ch - 1))) * 256 +
                                     uint (buf ! (2 + 4 * (ch - 1)))) / 10)) \<and>
        p (key ''tlo_'' ch) =
          Some (PFloat (real_of_int (uint (buf ! (3 + 4 * (ch - 1))) * 256 +
                                     uint (buf ! (4 + 4 * (ch - 1)))) / 10)))"
proof -
  from alarm_temperature_fields [OF assms, of 1] obtain p
    where p: "raw_to_pkt buf = Inr p" "p ''type'' = Some (PStr ''alarm_temperature'')"
    by auto
  have "p (key ''thi_'' ch) =
          Some (PFloat (real_of_int (uint (buf ! (1 + 4 * (ch - 1))) * 256 +
                                     uint (buf ! (2 + 4 * (ch - 1)))) / 10)) \<and>
        p (key ''tlo_'' ch) =
          Some (PFloat (real_of_int (uint (buf ! (3 + 4 * (ch - 1))) * 256 +
                                     uint (buf ! (4 + 4 * (ch - 1)))) / 10))"
    if "ch \<in> {1..8}" for ch
  proof -
    from that have "1 \<le> ch" "ch \<le> 8" by auto
    from alarm_temperature_fields [OF assms this] p(1) show ?thesis
      by (auto simp: tenths_def)
  qed
  with p show ?thesis by auto
qed

lemma raw_to_pkt_27_type:
  assumes "length buf = 27"
  shows "\<exists>p. raw_to_pkt buf = Inr p \<and>
     (p ''type'' = Some (PStr ''sensor_values'') \<or>
      p ''type'' = Some (PStr ''sensor_calibration''))"
  using sensor_calibration_fields [OF assms, of 1] sensor_values_fields [OF assms, of 1]
  by (auto simp: raw_to_pkt_27 [OF assms])

text \<open>Unless the length is 27, the type of the record is a function of the length.\<close>

lemma raw_to_pkt_type:
  assumes "length buf \<noteq> 27"
  shows "\<exists>p. raw_to_pkt buf = Inr p \<and>
     p ''type'' =
       (if length buf = 4 then Some (PStr ''interval'')
        else if length buf = 30 then Some (PStr ''configuration'')
        else if length buf = 19 then Some (PStr ''alarm_humidity'')
        else if length buf = 35 then Some (PStr ''alarm_temperature'')
        else None)"
proof -
  consider "length buf = 4" | "length buf = 19" | "length buf = 30"
    | "length buf = 35" | "length buf \<notin> {4, 19, 27, 30, 35}"
    using assms by auto
  then show ?thesis
  proof cases
    case 1
    then show ?thesis by (simp add: raw_to_pkt_interval)
  next
    case 2
    with alarm_humidity_all [OF 2] show ?thesis by auto
  next
    case 3
    then show ?thesis by (simp add: raw_to_pkt_configuration configuration_eval)
  next
    case 4
    with alarm_temperature_all [OF 4] show ?thesis by auto
  next
    case 5
    then show ?thesis by (simp add: raw_to_pkt_unknown)
  qed
qed

text \<open>
  What the guard of the current-data loop does: the temperature of channel \<open>ch\<close> is
  stored when the most significant byte is not \<open>0x7f\<close> and the least significant
  byte is not \<open>0xff\<close>, and left out in every other case.
\<close>

lemma sensor_values_temperature_exact:
  assumes "length buf = 27" and "\<not> (\<forall>i\<in>{1..24}. buf ! i = 0)" and "1 \<le> ch" and "ch \<le> 8"
  shows "\<exists>p. raw_to_pkt buf = Inr p \<and> p ''type'' = Some (PStr ''sensor_values'') \<and>
     p (key ''t_'' ch) =
       (if buf ! (1 + 3 * (ch - 1)) \<noteq> 0x7f \<and> buf ! (2 + 3 * (ch - 1)) \<noteq> 0xff
        then Some (PFloat (real_of_int (uint (buf ! (1 + 3 * (ch - 1))) * 256 +
                                        uint (buf ! (2 + 3 * (ch - 1)))) / 10))
        else None)"
  using sensor_values_fields [OF assms(1,3,4)] assms(2)
  by (auto simp: raw_to_pkt_27 [OF assms(1)] tenths_def byte_eq_uint)

section \<open>The claims\<close>

subsection \<open>Framing\<close>

text \<open>
  Claim C1 says that \<open>read\<close> returns the packet up to and including the first
  \<open>0x40 0x7d\<close> pair of every 64-byte packet that starts with \<open>0x7b\<close> and holds such
  a pair. The code inspects the byte after the first \<open>0x40\<close> only. The packet
  \<open>humidity_64_packet\<close> is a current-data message with 64 percent humidity on
  channel 1: it starts with \<open>0x7b\<close>, its terminator pair stands at positions 25 and
  26, its first \<open>0x40\<close> is the humidity byte at position 3, and \<open>read\<close> raises
  the error "no terminating bytes in buffer" instead of returning the first 27 bytes.
\<close>

theorem read_rejects_payload_0x40:
  "length humidity_64_packet = 64 \<and> humidity_64_packet ! 0 = 0x7b \<and>
   humidity_64_packet ! 25 = 0x40 \<and> humidity_64_packet ! 26 = 0x7d \<and>
   read humidity_64_packet = Inl (WeeWxIOError NoTerminator)"
  by (simp add: humidity_64_packet_def read_def getitem_def find_idx_def try_body_def)

text \<open>
  Claim C6 says that every byte access of \<open>read\<close> on a 64-byte packet stays in
  bounds and that every framing failure is a \<open>WeeWxIOError\<close>. On the packet
  \<open>last_byte_0x40_packet\<close>, which starts with \<open>0x7b\<close> and whose only \<open>0x40\<close>
  is the last byte, \<open>read\<close> subscripts position 64 and the IndexError leaves
  \<open>read\<close>: the handler catches ValueError only.
\<close>

theorem read_last_byte_0x40_escapes:
  "length last_byte_0x40_packet = 64 \<and> last_byte_0x40_packet ! 0 = 0x7b \<and>
   last_byte_0x40_packet ! 63 = 0x40 \<and>
   read last_byte_0x40_packet = Inl IndexError"
  by (simp add: last_byte_0x40_packet_def read_def getitem_def find_idx_def try_body_def
      index_replicate_0 nth_append)

text \<open>
  Claim C5, as stated, fails: it says that \<open>read\<close> fails with BadLength for every
  packet whose length is not 64. An empty buffer has length 0, and \<open>read\<close> returns
  \<open>None\<close> for it without raising (the guard \<^verbatim>\<open>if not buf: return None\<close>).
\<close>

theorem read_empty_no_error:
  "length ([] :: byte list) \<noteq> 64 \<and> read [] = Inr None"
  by (simp add: read_def)

text \<open>
  Claim C5, amended: \<open>read\<close> returns \<open>None\<close> without an error for an empty buffer;
  it raises \<open>WeeWxIOError\<close> for the bad length of every non-empty buffer whose length
  is not 64, for the bad first byte of every 64-byte packet that does not start with
  \<open>0x7b\<close>, and for the missing terminator of every 64-byte packet that starts with
  \<open>0x7b\<close>, contains no \<open>0x40 0x7d\<close> pair and whose first \<open>0x40\<close>, if it has
  one, is not its last byte. (A packet whose only \<open>0x40\<close> is the last byte is the
  subject of claim C6.)
\<close>

theorem read_errors:
  "(buf = [] \<longrightarrow> read buf = Inr None) \<and>
   (buf \<noteq> [] \<and> length buf \<noteq> 64 \<longrightarrow> read buf = Inl (WeeWxIOError BadLength)) \<and>
   (length buf = 64 \<and> buf ! 0 \<noteq> 0x7b \<longrightarrow> read buf = Inl (WeeWxIOError BadStart)) \<and>
   (length buf = 64 \<and> buf ! 0 = 0x7b \<and>
    (\<forall>i. Suc i < length buf \<longrightarrow> \<not> (buf ! i = 0x40 \<and> buf ! Suc i = 0x7d)) \<and>
    (last buf = 0x40 \<longrightarrow> 0x40 \<in> set (butlast buf)) \<longrightarrow>
      read buf = Inl (WeeWxIOError NoTerminator))"
proof (intro conjI impI)
  show "read buf = Inr None" if "buf = []"
    using that by (simp add: read_empty)
  show "read buf = Inl (WeeWxIOError BadLength)" if "buf \<noteq> [] \<and> length buf \<noteq> 64"
    using that by (simp add: read_BadLength)
  show "read buf = Inl (WeeWxIOError BadStart)" if "length buf = 64 \<and> buf ! 0 \<noteq> 0x7b"
    using that by (simp add: read_BadStart)
  show "read buf = Inl (WeeWxIOError NoTerminator)"
    if h: "length buf = 64 \<and> buf ! 0 = 0x7b \<and>
      (\<forall>i. Suc i < length buf \<longrightarrow> \<not> (buf ! i = 0x40 \<and> buf ! Suc i = 0x7d)) \<and>
      (last buf = 0x40 \<longrightarrow> 0x40 \<in> set (butlast buf))"
  proof (rule read_NoTerminator)
    show "length buf = 64" using h by (rule conjunct1)
    show "buf ! 0 = 0x7b" using h by (elim conjE)
    show "\<forall>i. Suc i < length buf \<longrightarrow> \<not> (buf ! i = 0x40 \<and> buf ! Suc i = 0x7d)"
      using h by (elim conjE)
    show "last buf = 0x40 \<longrightarrow> 0x40 \<in> set (butlast buf)"
      using h by (elim conjE)
  qed
qed

text \<open>
  Witness for C5: the empty buffer, the four-byte interval message, a packet of 64 zero
  bytes and a packet without any \<open>0x40\<close> satisfy the four hypotheses in turn.
\<close>

theorem read_errors_witness:
  "read [] = Inr None \<and>
   read interval_example = Inl (WeeWxIOError BadLength) \<and>
   read bad_start_packet = Inl (WeeWxIOError BadStart) \<and>
   read no_terminator_packet = Inl (WeeWxIOError NoTerminator)"
proof -
  have a: "interval_example \<noteq> [] \<and> length interval_example \<noteq> 64"
    by (simp add: interval_example_def)
  have b: "length bad_start_packet = 64 \<and> bad_start_packet ! 0 \<noteq> 0x7b"
    by (simp add: bad_start_packet_def)
  have c1: "length no_terminator_packet = 64 \<and> no_terminator_packet ! 0 = 0x7b"
    by (simp add: no_terminator_packet_def)
  have c2: "no_terminator_packet ! Suc i \<noteq> 0x7d" if "Suc i < 64" for i
    using that by (simp add: no_terminator_packet_def)
  have c3: "last no_terminator_packet \<noteq> 0x40"
    by (simp add: no_terminator_packet_def)
  from c1 c2 c3 have c: "length no_terminator_packet = 64 \<and> no_terminator_packet ! 0 = 0x7b \<and>
    (\<forall>i. Suc i < length no_terminator_packet \<longrightarrow>
       \<not> (no_terminator_packet ! i = 0x40 \<and> no_terminator_packet ! Suc i = 0x7d)) \<and>
    (last no_terminator_packet = 0x40 \<longrightarrow> 0x40 \<in> set (butlast no_terminator_packet))"
    by simp
  note r0 = read_errors [of "[]", THEN conjunct1, THEN mp, OF refl]
  note r1 = read_errors [of interval_example, THEN conjunct2, THEN conjunct1, THEN mp, OF a]
  note r2 = read_errors [of bad_start_packet, THEN conjunct2, THEN conjunct2,
      THEN conjunct1, THEN mp, OF b]
  note r3 = read_errors [of no_terminator_packet, THEN conjunct2, THEN conjunct2,
      THEN conjunct2, THEN mp, OF c]
  from r0 r1 r2 r3 show ?thesis by (intro conjI)
qed

subsection \<open>Decoding\<close>

text \<open>
  Claim C9: decoding the 27-byte buffer
  \<open>7b 00 eb 25 7f ff ff 7f ff ff 7f ff ff 7f ff ff 7f ff ff 7f ff ff 7f ff ff 40 7d\<close>
  gives a \<open>sensor_values\<close> record whose channel 1 has temperature 23.5 degrees and
  humidity 37 percent; the record has no other entry, so temperature and humidity of
  the channels 2 to 8 are absent.
\<close>

theorem values_example_decoded:
  "raw_to_pkt values_example =
     Inr [''type'' \<mapsto> PStr ''sensor_values'', ''t_1'' \<mapsto> PFloat 23.5, ''h_1'' \<mapsto> PInt 37] \<and>
   map [''type'' \<mapsto> PStr ''sensor_values'', ''t_1'' \<mapsto> PFloat 23.5, ''h_1'' \<mapsto> PInt 37]
     [''t_2'', ''t_3'', ''t_4'', ''t_5'', ''t_6'', ''t_7'', ''t_8'',
      ''h_2'', ''h_3'', ''h_4'', ''h_5'', ''h_6'', ''h_7'', ''h_8''] =
     [None, None, None, None, None, None, None, None, None, None, None, None, None, None]"
  by (simp add: raw_to_pkt_def values_example_def payload_def upt8 rep24 key_simps
      Suc_numerals sensor_values_ch_def getitem_def tenths_def)

text \<open>
  Claim C4, as stated, fails: it says that a message of an unrecognized length decodes
  to a record that carries the raw message bytes. The nine-byte message of the module
  documentation decodes to the empty dictionary: the bytes go to the debug log only.
\<close>

theorem raw_to_pkt_unknown_empty:
  "length unknown_example = 9 \<and> raw_to_pkt unknown_example = Inr Map.empty"
  by (simp add: unknown_example_def raw_to_pkt_def)

text \<open>
  Claim C4, amended: \<open>raw_to_pkt\<close> never raises, and a message whose length is not
  one of 4, 19, 27, 30 and 35 decodes to the empty dictionary (no type and no bytes).
\<close>

theorem raw_to_pkt_never_fails:
  "(\<exists>p. raw_to_pkt buf = Inr p) \<and>
   (length buf \<notin> {4, 19, 27, 30, 35} \<longrightarrow> raw_to_pkt buf = Inr Map.empty)"
proof (intro conjI impI)
  show "\<exists>p. raw_to_pkt buf = Inr p" by (rule raw_to_pkt_total)
  show "raw_to_pkt buf = Inr Map.empty" if "length buf \<notin> {4, 19, 27, 30, 35}"
    using that by (rule raw_to_pkt_unknown)
qed

text \<open>Witness for C4: a three-byte message.\<close>

theorem raw_to_pkt_never_fails_witness:
  "raw_to_pkt short_example = Inr Map.empty"
proof -
  have "length short_example \<notin> {4, 19, 27, 30, 35}"
    by (simp add: short_example_def)
  then show ?thesis
    by (rule raw_to_pkt_never_fails [of short_example, THEN conjunct2, THEN mp])
qed

text \<open>
  Claim C3: a 27-byte message decodes to a \<open>sensor_calibration\<close> record, with
  temperature offset 0 and humidity offset 0 on each of the eight channels, if all 24
  bytes at the positions 1 to 24 are zero, and to a \<open>sensor_values\<close> record otherwise.
\<close>

theorem calibration_iff_payload_zero:
  assumes "length buf = 27"
  shows "\<exists>p. raw_to_pkt buf = Inr p \<and>
     (if \<forall>i\<in>{1..24}. buf ! i = 0
      then p ''type'' = Some (PStr ''sensor_calibration'') \<and>
           (\<forall>ch\<in>{1..8}. p (key ''tc_'' ch) = Some (PFloat 0) \<and>
                         p (key ''hc_'' ch) = Some (PInt 0))
      else p ''type'' = Some (PStr ''sensor_values''))"
proof (cases "\<forall>i\<in>{1..24}. buf ! i = 0")
  case True
  from sensor_calibration_fields [OF assms, of 1] obtain p
    where p: "for_range [0..<8] (sensor_calibration_ch buf)
                [''type'' \<mapsto> PStr ''sensor_calibration''] = Inr p"
      and ty: "p ''type'' = Some (PStr ''sensor_calibration'')"
    by auto
  have "p (key ''tc_'' ch) = Some (PFloat 0) \<and> p (key ''hc_'' ch) = Some (PInt 0)"
    if ch: "ch \<in> {1..8}" for ch
  proof -
    from ch have r: "1 \<le> ch" "ch \<le> 8" by auto
    then have "1 + 3 * (ch - 1) \<in> {1..24}" "2 + 3 * (ch - 1) \<in> {1..24}"
      "3 + 3 * (ch - 1) \<in> {1..24}" by auto
    with True have z: "buf ! (1 + 3 * (ch - 1)) = 0" "buf ! (2 + 3 * (ch - 1)) = 0"
      "buf ! (3 + 3 * (ch - 1)) = 0" by blast+
    from sensor_calibration_fields [OF assms r] p z show ?thesis
      by (auto simp: tenths_def)
  qed
  with p ty True show ?thesis by (simp add: raw_to_pkt_27 [OF assms])
next
  case False
  from sensor_values_fields [OF assms, of 1] False show ?thesis
    by (auto simp: raw_to_pkt_27 [OF assms])
qed

text \<open>
  Witness for C3: the calibration message of the module documentation (all zero) and its
  current-data message (not all zero).
\<close>

theorem calibration_iff_payload_zero_witness:
  "(\<exists>p. raw_to_pkt calibration_example = Inr p \<and>
        p ''type'' = Some (PStr ''sensor_calibration'') \<and>
        p ''tc_1'' = Some (PFloat 0) \<and> p ''hc_1'' = Some (PInt 0)) \<and>
   (\<exists>p. raw_to_pkt values_example = Inr p \<and> p ''type'' = Some (PStr ''sensor_values''))"
proof -
  have l1: "length calibration_example = 27" by (simp add: calibration_example_def)
  have l2: "length values_example = 27" by (simp add: values_example_def)
  have one: "(1::nat) \<in> {1..8}" by simp
  from calibration_iff_payload_zero [OF l1] calibration_example_zero
  obtain p where p: "raw_to_pkt calibration_example = Inr p"
      "p ''type'' = Some (PStr ''sensor_calibration'')"
    and every: "\<forall>ch\<in>{1..8}. p (key ''tc_'' ch) = Some (PFloat 0) \<and>
                               p (key ''hc_'' ch) = Some (PInt 0)"
    by auto
  from bspec [OF every one] have "p ''tc_1'' = Some (PFloat 0) \<and> p ''hc_1'' = Some (PInt 0)"
    by (simp add: key_simps)
  with p have a: "\<exists>p. raw_to_pkt calibration_example = Inr p \<and>
        p ''type'' = Some (PStr ''sensor_calibration'') \<and>
        p ''tc_1'' = Some (PFloat 0) \<and> p ''hc_1'' = Some (PInt 0)"
    by auto
  from calibration_iff_payload_zero [OF l2]
  have b: "\<exists>p. raw_to_pkt values_example = Inr p \<and> p ''type'' = Some (PStr ''sensor_values'')"
    by (simp only: if_not_P [OF values_example_nonzero])
  from a b show ?thesis by (rule conjI)
qed

text \<open>
  Claim C2 says that, in a current-data message, the temperature of a channel is present
  and equals \<open>(msb * 256 + lsb) / 10\<close> whenever the most significant byte is not
  \<open>0x7f\<close>, whatever the least significant byte. The guard of the code is
  \<^verbatim>\<open>buf[idx] != 0x7f and buf[idx + 1] != 0xff\<close>: it drops every reading whose least
  significant byte is \<open>0xff\<close>. In \<open>values_25_5_example\<close>, a 27-byte message
  whose payload is not all zero, the bytes of channel 1 are \<open>0x00 0xff\<close> (25.5
  degrees, by the formula of the module documentation), and the decoded record has the
  humidity of channel 1 and no temperature for it.
\<close>

theorem values_25_5_no_temperature:
  "length values_25_5_example = 27 \<and>
   values_25_5_example ! 1 \<noteq> 0x7f \<and> values_25_5_example ! 2 = 0xff \<and>
   raw_to_pkt values_25_5_example =
     Inr [''type'' \<mapsto> PStr ''sensor_values'', ''h_1'' \<mapsto> PInt 37] \<and>
   [''type'' \<mapsto> PStr ''sensor_values'', ''h_1'' \<mapsto> PInt 37] ''t_1'' = None"
  by (simp add: raw_to_pkt_def values_25_5_example_def payload_def upt8 rep24 key_simps
      Suc_numerals sensor_values_ch_def getitem_def tenths_def)

text \<open>
  Claim C7: \<open>raw_to_pkt\<close> classifies a message by its length. Length 4 gives an
  \<open>interval\<close> record whose minutes are byte 1; length 19 an \<open>alarm_humidity\<close>
  record with, for each channel \<open>ch\<close> from 1 to 8, the high limit byte
  \<open>1 + 2 * (ch - 1)\<close> and the low limit byte \<open>2 + 2 * (ch - 1)\<close>; length 30 a
  \<open>configuration\<close> record; length 35 an \<open>alarm_temperature\<close> record whose limits
  are the 16-bit big-endian values divided by 10; length 27 a \<open>sensor_values\<close> or a
  \<open>sensor_calibration\<close> record; every other length the empty dictionary, which is
  how the code represents an unknown message. Unless the length is 27, two messages of
  the same length get the same type, whatever their content.
\<close>

theorem classification_by_length:
  "(length buf = 4 \<longrightarrow>
      raw_to_pkt buf =
        Inr [''type'' \<mapsto> PStr ''interval'', ''interval'' \<mapsto> PInt (uint (buf ! 1))]) \<and>
   (length buf = 19 \<longrightarrow>
      (\<exists>p. raw_to_pkt buf = Inr p \<and> p ''type'' = Some (PStr ''alarm_humidity'') \<and>
         (\<forall>ch\<in>{1..8}.
            p (key ''hhi_'' ch) = Some (PInt (uint (buf ! (1 + 2 * (ch - 1))))) \<and>
            p (key ''hlo_'' ch) = Some (PInt (uint (buf ! (2 + 2 * (ch - 1)))))))) \<and>
   (length buf = 30 \<longrightarrow>
      (\<exists>p. raw_to_pkt buf = Inr p \<and> p ''type'' = Some (PStr ''configuration''))) \<and>
   (length buf = 35 \<longrightarrow>
      (\<exists>p. raw_to_pkt buf = Inr p \<and> p ''type'' = Some (PStr ''alarm_temperature'') \<and>
         (\<forall>ch\<in>{1..8}.
            p (key ''thi_'' ch) =
              Some (PFloat (real_of_int (uint (buf ! (1 + 4 * (ch - 1))) * 256 +
                                         uint (buf ! (2 + 4 * (ch - 1)))) / 10)) \<and>
            p (key ''tlo_'' ch) =
              Some (PFloat (real_of_int (uint (buf ! (3 + 4 * (ch - 1))) * 256 +
                                         uint (buf ! (4 + 4 * (ch - 1)))) / 10))))) \<and>
   (length buf = 27 \<longrightarrow>
      (\<exists>p. raw_to_pkt buf = Inr p \<and>
         (p ''type'' = Some (PStr ''sensor_values'') \<or>
          p ''type'' = Some (PStr ''sensor_calibration'')))) \<and>
   (length buf \<notin> {4, 19, 27, 30, 35} \<longrightarrow> raw_to_pkt buf = Inr Map.empty) \<and>
   (length buf \<noteq> 27 \<and> length buf' = length buf \<longrightarrow>
      (\<exists>p p'. raw_to_pkt buf = Inr p \<and> raw_to_pkt buf' = Inr p' \<and>
         p ''type'' = p' ''type''))"
proof (intro conjI impI)
  show "raw_to_pkt buf =
      Inr [''type'' \<mapsto> PStr ''interval'', ''interval'' \<mapsto> PInt (uint (buf ! 1))]"
    if "length buf = 4"
    using that by (rule raw_to_pkt_interval)
  show "\<exists>p. raw_to_pkt buf = Inr p \<and> p ''type'' = Some (PStr ''alarm_humidity'') \<and>
      (\<forall>ch\<in>{1..8}.
         p (key ''hhi_'' ch) = Some (PInt (uint (buf ! (1 + 2 * (ch - 1))))) \<and>
         p (key ''hlo_'' ch) = Some (PInt (uint (buf ! (2 + 2 * (ch - 1))))))"
    if "length buf = 19"
    using that by (rule alarm_humidity_all)
  show "\<exists>p. raw_to_pkt buf = Inr p \<and> p ''type'' = Some (PStr ''configuration'')"
    if "length buf = 30"
    using that by (simp add: raw_to_pkt_configuration configuration_eval)
  show "\<exists>p. raw_to_pkt buf = Inr p \<and> p ''type'' = Some (PStr ''alarm_temperature'') \<and>
      (\<forall>ch\<in>{1..8}.
         p (key ''thi_'' ch) =
           Some (PFloat (real_of_int (uint (buf ! (1 + 4 * (ch - 1))) * 256 +
                                      uint (buf ! (2 + 4 * (ch - 1)))) / 10)) \<and>
         p (key ''tlo_'' ch) =
           Some (PFloat (real_of_int (uint (buf ! (3 + 4 * (ch - 1))) * 256 +
                                      uint (buf ! (4 + 4 * (ch - 1)))) / 10)))"
    if "length buf = 35"
    using that by (rule alarm_temperature_all)
  show "\<exists>p. raw_to_pkt buf = Inr p \<and>
      (p ''type'' = Some (PStr ''sensor_values'') \<or>
       p ''type'' = Some (PStr ''sensor_calibration''))"
    if "length buf = 27"
    using that by (rule raw_to_pkt_27_type)
  show "raw_to_pkt buf = Inr Map.empty" if "length buf \<notin> {4, 19, 27, 30, 35}"
    using that by (rule raw_to_pkt_unknown)
  show "\<exists>p p'. raw_to_pkt buf = Inr p \<and> raw_to_pkt buf' = Inr p' \<and> p ''type'' = p' ''type''"
    if h: "length buf \<noteq> 27 \<and> length buf' = length buf"
  proof -
    from h have a: "length buf \<noteq> 27" and b: "length buf' \<noteq> 27"
      and e: "length buf' = length buf" by auto
    from raw_to_pkt_type [OF a] raw_to_pkt_type [OF b] e show ?thesis
      by (elim exE conjE) (intro exI conjI, assumption, assumption, simp)
  qed
qed

text \<open>
  Witness for C7: the messages of the module documentation, one for each length, and a
  second interval message for the last part.
\<close>

theorem classification_by_length_witness:
  "raw_to_pkt interval_example =
     Inr [''type'' \<mapsto> PStr ''interval'', ''interval'' \<mapsto> PInt 5] \<and>
   (\<exists>p. raw_to_pkt alarm_humidity_example = Inr p \<and>
      p ''type'' = Some (PStr ''alarm_humidity'') \<and>
      p ''hhi_1'' = Some (PInt 90) \<and> p ''hlo_1'' = Some (PInt 20)) \<and>
   (\<exists>p. raw_to_pkt configuration_example = Inr p \<and>
      p ''type'' = Some (PStr ''configuration'')) \<and>
   (\<exists>p. raw_to_pkt alarm_temperature_example = Inr p \<and>
      p ''type'' = Some (PStr ''alarm_temperature'') \<and>
      p ''thi_1'' = Some (PFloat 30) \<and> p ''tlo_1'' = Some (PFloat 10)) \<and>
   (\<exists>p. raw_to_pkt values_example = Inr p \<and>
      (p ''type'' = Some (PStr ''sensor_values'') \<or>
       p ''type'' = Some (PStr ''sensor_calibration''))) \<and>
   raw_to_pkt unknown_example = Inr Map.empty \<and>
   (\<exists>p p'. raw_to_pkt interval_example = Inr p \<and>
      raw_to_pkt [0x7b, 0xf0, 0x40, 0x7d] = Inr p' \<and> p ''type'' = p' ''type'')"
proof -
  have one: "(1::nat) \<in> {1..8}" by simp
  have l4: "length interval_example = 4" by (simp add: interval_example_def)
  have l19: "length alarm_humidity_example = 19" by (simp add: alarm_humidity_example_def)
  have l30: "length configuration_example = 30" by (simp add: configuration_example_def)
  have l35: "length alarm_temperature_example = 35"
    by (simp add: alarm_temperature_example_def)
  have l27: "length values_example = 27" by (simp add: values_example_def)
  have l9: "length unknown_example \<notin> {4, 19, 27, 30, 35}"
    by (simp add: unknown_example_def)
  have l44: "length interval_example \<noteq> 27 \<and>
      length [0x7b, 0xf0, 0x40, 0x7d :: byte] = length interval_example"
    by (simp add: interval_example_def)
  note c1 = classification_by_length [of interval_example, THEN conjunct1, THEN mp, OF l4]
  note c2 = classification_by_length [of alarm_humidity_example, THEN conjunct2,
      THEN conjunct1, THEN mp, OF l19]
  note c3 = classification_by_length [of configuration_example, THEN conjunct2,
      THEN conjunct2, THEN conjunct1, THEN mp, OF l30]
  note c4 = classification_by_length [of alarm_temperature_example, THEN conjunct2,
      THEN conjunct2, THEN conjunct2, THEN conjunct1, THEN mp, OF l35]
  note c5 = classification_by_length [of values_example, THEN conjunct2, THEN conjunct2,
      THEN conjunct2, THEN conjunct2, THEN conjunct1, THEN mp, OF l27]
  note c6 = classification_by_length [of unknown_example, THEN conjunct2, THEN conjunct2,
      THEN conjunct2, THEN conjunct2, THEN conjunct2, THEN conjunct1, THEN mp, OF l9]
  note c7 = classification_by_length [of interval_example "[0x7b, 0xf0, 0x40, 0x7d]",
      THEN conjunct2, THEN conjunct2, THEN conjunct2, THEN conjunct2, THEN conjunct2,
      THEN conjunct2, THEN mp, OF l44]
  from c1 have w1: "raw_to_pkt interval_example =
      Inr [''type'' \<mapsto> PStr ''interval'', ''interval'' \<mapsto> PInt 5]"
    by (simp add: interval_example_def)
  from c2 obtain p where p: "raw_to_pkt alarm_humidity_example = Inr p"
      "p ''type'' = Some (PStr ''alarm_humidity'')"
    and every: "\<forall>ch\<in>{1..8}.
        p (key ''hhi_'' ch) = Some (PInt (uint (alarm_humidity_example ! (1 + 2 * (ch - 1))))) \<and>
        p (key ''hlo_'' ch) = Some (PInt (uint (alarm_humidity_example ! (2 + 2 * (ch - 1)))))"
    by auto
  from bspec [OF every one] have "p ''hhi_1'' = Some (PInt 90) \<and> p ''hlo_1'' = Some (PInt 20)"
    by (simp add: key_simps alarm_humidity_example_def)
  with p have w2: "\<exists>p. raw_to_pkt alarm_humidity_example = Inr p \<and>
      p ''type'' = Some (PStr ''alarm_humidity'') \<and>
      p ''hhi_1'' = Some (PInt 90) \<and> p ''hlo_1'' = Some (PInt 20)"
    by auto
  from c4 obtain q where q: "raw_to_pkt alarm_temperature_example = Inr q"
      "q ''type'' = Some (PStr ''alarm_temperature'')"
    and every_q: "\<forall>ch\<in>{1..8}.
        q (key ''thi_'' ch) =
          Some (PFloat (real_of_int
            (uint (alarm_temperature_example ! (1 + 4 * (ch - 1))) * 256 +
             uint (alarm_temperature_example ! (2 + 4 * (ch - 1)))) / 10)) \<and>
        q (key ''tlo_'' ch) =
          Some (PFloat (real_of_int
            (uint (alarm_temperature_example ! (3 + 4 * (ch - 1))) * 256 +
             uint (alarm_temperature_example ! (4 + 4 * (ch - 1)))) / 10))"
    by auto
  from bspec [OF every_q one]
  have "q ''thi_1'' = Some (PFloat 30) \<and> q ''tlo_1'' = Some (PFloat 10)"
    by (simp add: key_simps alarm_temperature_example_def)
  with q have w4: "\<exists>p. raw_to_pkt alarm_temperature_example = Inr p \<and>
      p ''type'' = Some (PStr ''alarm_temperature'') \<and>
      p ''thi_1'' = Some (PFloat 30) \<and> p ''tlo_1'' = Some (PFloat 10)"
    by auto
  from w1 w2 c3 w4 c5 c6 c7 show ?thesis by (intro conjI)
qed

text \<open>
  Claim C8: the timezone of a 30-byte configuration message is the byte at position 6
  minus \<open>0x100\<close> when the high nibble of the byte is \<open>0xf\<close>, and the byte itself
  otherwise; the configuration message of the module documentation, which starts with
  \<open>7b 00 48 01 00 00 fb 01\<close>, decodes with timezone -5 and units \<open>degree_F\<close>.
\<close>

theorem configuration_timezone:
  "(length buf = 30 \<longrightarrow>
      (\<exists>p. raw_to_pkt buf = Inr p \<and>
         p ''timezone'' =
           Some (PInt (if buf ! 6 AND 0xf0 = 0xf0 then uint (buf ! 6) - 0x100
                       else uint (buf ! 6))))) \<and>
   (\<exists>p. raw_to_pkt configuration_example = Inr p \<and>
      p ''timezone'' = Some (PInt (- 5)) \<and> p ''units'' = Some (PStr ''degree_F''))"
proof (intro conjI impI)
  show "\<exists>p. raw_to_pkt buf = Inr p \<and>
      p ''timezone'' =
        Some (PInt (if buf ! 6 AND 0xf0 = 0xf0 then uint (buf ! 6) - 0x100
                    else uint (buf ! 6)))"
    if "length buf = 30"
    using that
    by (simp add: raw_to_pkt_configuration configuration_eval decode_timezone_byte)
  have "length configuration_example = 30" by (simp add: configuration_example_def)
  then show "\<exists>p. raw_to_pkt configuration_example = Inr p \<and>
      p ''timezone'' = Some (PInt (- 5)) \<and> p ''units'' = Some (PStr ''degree_F'')"
    by (simp add: raw_to_pkt_configuration configuration_eval decode_timezone_byte
        dict_get_def UNITS_def)
      (simp add: configuration_example_def)
qed

text \<open>Witness for C8: the general rule applied to the documented configuration message.\<close>

theorem configuration_timezone_witness:
  "\<exists>p. raw_to_pkt configuration_example = Inr p \<and>
       p ''timezone'' = Some (PInt (0xfb - 0x100))"
proof -
  have l: "length configuration_example = 30" by (simp add: configuration_example_def)
  have b: "configuration_example ! 6 = 0xfb" by (simp add: configuration_example_def)
  from configuration_timezone [of configuration_example, THEN conjunct1, THEN mp, OF l]
  show ?thesis by (simp add: b)
qed

subsection \<open>Encoding\<close>

text \<open>
  Claim C10: \<open>send_cmd\<close> with the opcode \<open>op\<close> writes exactly the four bytes
  \<open>0x7b op 0x40 0x7d\<close>, and \<open>send_sequence\<close> writes the seven pings with the
  opcodes \<open>0x06, 0x08, 0x09, 0x05, 0x03, 0x04, 0x41\<close>, in this order, after whatever
  was written before.
\<close>

theorem send_sequence_pings:
  "send_cmd op t = t\<lparr>written := written t @ [[0x7b, op, 0x40, 0x7d]]\<rparr> \<and>
   send_sequence t = t\<lparr>written := written t @
     [[0x7b, 0x06, 0x40, 0x7d], [0x7b, 0x08, 0x40, 0x7d], [0x7b, 0x09, 0x40, 0x7d],
      [0x7b, 0x05, 0x40, 0x7d], [0x7b, 0x03, 0x40, 0x7d], [0x7b, 0x04, 0x40, 0x7d],
      [0x7b, 0x41, 0x40, 0x7d]]\<rparr>"
  by (simp add: send_sequence_def send_cmd_def write_buf_def)

end
